theory Spec2Isabelle
  imports Main
begin

section \<open>The embedded interpreter as seen from applepye.c\<close>

text \<open>
  \<^verbatim>\<open>applepye.c\<close> drives an embedded CPython through its C API and through a fixed
  wrapper program written in Python. The model has three layers:
  \<^item> the interpreter state the wrapper and the C code read and write (the dictionary
    of \<^verbatim>\<open>__main__\<close>, the attributes \<^verbatim>\<open>sys.stdout\<close> and \<^verbatim>\<open>sys.stderr\<close>, the file
    objects);
  \<^item> the C API calls and the Python statements of the wrapper, one definition each;
  \<^item> the three functions of \<^verbatim>\<open>applepye.c\<close> and the helper \<^verbatim>\<open>_dup_str\<close>.
  What the interpreter does with the user's source (\<^verbatim>\<open>eval\<close>, \<^verbatim>\<open>exec\<close>), and
  which allocations succeed, is not code of this repository: it is a parameter
  (\<open>runtime\<close>). The general theorems hold for every runtime; closed examples use the
  instance \<open>py_fragment\<close>, an interpreter for a small fragment of Python.
  Texts are byte strings: a Python \<^verbatim>\<open>str\<close> is identified with its UTF-8 encoding.

  What the model leaves out: threads other than the caller's; reference counts; the
  error indicator a failed C API call leaves behind; a script that replaces the
  builtins the wrapper calls (\<^verbatim>\<open>eval\<close>, \<^verbatim>\<open>exec\<close>, \<^verbatim>\<open>print\<close>, \<^verbatim>\<open>globals\<close>,
  \<^verbatim>\<open>Exception\<close>) or the modules it imports. The C API calls are taken to return
  when their documented precondition holds; \<^verbatim>\<open>PyGILState_Release\<close> is taken to
  return also after \<^verbatim>\<open>Py_Finalize\<close>.
\<close>

datatype pyval =
    PNone
  | PInt int
  | PStr string
  | PRealStdout          \<comment> \<open>the file object the interpreter starts with as \<^verbatim>\<open>sys.stdout\<close>\<close>
  | PRealStderr          \<comment> \<open>the file object the interpreter starts with as \<^verbatim>\<open>sys.stderr\<close>\<close>
  | PBuffer nat          \<comment> \<open>an \<^verbatim>\<open>io.StringIO\<close> object, by its position in \<open>buffers\<close>\<close>
  | PModule string
  | PFunction string     \<comment> \<open>a function defined by \<^verbatim>\<open>def\<close>\<close>
  | PBuiltin string      \<comment> \<open>an object of the \<^verbatim>\<open>builtins\<close> module\<close>

text \<open>
  \<^verbatim>\<open>except Exception\<close> tells the classes derived from \<^verbatim>\<open>Exception\<close> from the other
  subclasses of \<^verbatim>\<open>BaseException\<close>; among the latter \<^verbatim>\<open>SystemExit\<close> is special to
  \<^verbatim>\<open>PyErr_Print\<close>. \<open>exc_text\<close> is what the \<^verbatim>\<open>traceback\<close> module prints for the
  exception after the line \<^verbatim>\<open>Traceback (most recent call last):\<close>.
\<close>

datatype exc_kind = StdException | KeyboardInterrupt | SystemExit

datatype pyexc = PyExc (exc_kind: exc_kind) (exc_text: string)

record interp =
  initialized :: bool                  \<comment> \<open>\<^verbatim>\<open>Py_IsInitialized()\<close>\<close>
  gil_held :: bool                     \<comment> \<open>the calling thread holds the GIL\<close>
  boots :: nat                         \<comment> \<open>how often \<^verbatim>\<open>Py_Initialize\<close> has brought the interpreter up\<close>
  globals :: "string \<rightharpoonup> pyval"        \<comment> \<open>the dictionary of module \<^verbatim>\<open>__main__\<close>\<close>
  sys_stdout :: pyval
  sys_stderr :: pyval
  real_stdout :: string                \<comment> \<open>text written to the process's standard output\<close>
  real_stderr :: string
  buffers :: "string list"             \<comment> \<open>contents of the \<^verbatim>\<open>StringIO\<close> objects created so far\<close>

text \<open>Running Python code ends normally with a value, or raises; \<open>None\<close>: it never ends.\<close>

datatype 'a outcome = Normal 'a interp | Raise pyexc interp

type_synonym 'a py = "interp \<Rightarrow> 'a outcome option"

text \<open>
  A call of a C function returns, or the process exits inside it (\<^verbatim>\<open>Py_Exit\<close>), or it
  violates a precondition of the C API (undefined behaviour, taken as a crash).
\<close>

datatype 'a c_outcome = Returned 'a interp | Exited interp | Crashed

fun outcome_value :: "'a c_outcome option \<Rightarrow> 'a option" where
  "outcome_value (Some (Returned r st)) = Some r"
| "outcome_value (Some (Exited st)) = None"
| "outcome_value (Some Crashed) = None"
| "outcome_value None = None"

fun outcome_state :: "'a c_outcome option \<Rightarrow> interp option" where
  "outcome_state (Some (Returned r st)) = Some st"
| "outcome_state (Some (Exited st)) = None"
| "outcome_state (Some Crashed) = None"
| "outcome_state None = None"


record runtime =
  malloc_ok :: "nat \<Rightarrow> bool"          \<comment> \<open>\<^verbatim>\<open>malloc(n)\<close> returns a block\<close>
  decode_ok :: "string \<Rightarrow> bool"       \<comment> \<open>\<^verbatim>\<open>PyUnicode_FromString\<close> succeeds on these bytes\<close>
  setitem_ok :: bool                   \<comment> \<open>\<^verbatim>\<open>PyDict_SetItemString\<close> succeeds\<close>
  encode_ok :: "string \<Rightarrow> bool"       \<comment> \<open>\<^verbatim>\<open>PyUnicode_AsUTF8\<close> succeeds on this text\<close>
  py_eval :: "string \<Rightarrow> pyval py"      \<comment> \<open>\<^verbatim>\<open>eval(source, globals())\<close>\<close>
  py_exec :: "string \<Rightarrow> unit py"       \<comment> \<open>\<^verbatim>\<open>exec(source, globals())\<close>\<close>

subsection \<open>Python operations the wrapper uses\<close>

definition nl :: string where
  "nl = [CHR 0x0A]"

definition quoted :: "string \<Rightarrow> string" where
  "quoted s = [CHR 0x27] @ s @ [CHR 0x27]"

definition NameError :: "string \<Rightarrow> pyexc" where
  "NameError n = PyExc StdException (''NameError: name '' @ quoted n @ '' is not defined'' @ nl)"

definition AttributeError :: "string \<Rightarrow> pyexc" where
  "AttributeError a = PyExc StdException (''AttributeError: no attribute '' @ quoted a @ nl)"

definition TypeError :: "string \<Rightarrow> pyexc" where
  "TypeError m = PyExc StdException (''TypeError: '' @ m @ nl)"

definition SyntaxError :: pyexc where
  "SyntaxError = PyExc StdException (''SyntaxError: invalid syntax'' @ nl)"

definition ok :: "'a \<Rightarrow> 'a py" where
  "ok v st = Some (Normal v st)"

definition throw :: "pyexc \<Rightarrow> 'a py" where
  "throw e st = Some (Raise e st)"

definition bind_py :: "'a py \<Rightarrow> ('a \<Rightarrow> 'b py) \<Rightarrow> 'b py" where
  "bind_py m f st =
     (case m st of
        None \<Rightarrow> None
      | Some (Normal v st') \<Rightarrow> f v st'
      | Some (Raise e st') \<Rightarrow> Some (Raise e st'))"

text \<open>The statements of a module run in order; the first exception ends the run.\<close>

fun run_stmts :: "unit py list \<Rightarrow> unit py" where
  "run_stmts [] st = Some (Normal () st)"
| "run_stmts (s # ss) st =
     (case s st of
        None \<Rightarrow> None
      | Some (Normal u st') \<Rightarrow> run_stmts ss st'
      | Some (Raise e st') \<Rightarrow> Some (Raise e st'))"

definition load_global :: "string \<Rightarrow> pyval py" where
  "load_global n st =
     (case globals st n of Some v \<Rightarrow> ok v st | None \<Rightarrow> throw (NameError n) st)"

definition store_global :: "string \<Rightarrow> pyval \<Rightarrow> unit py" where
  "store_global n v st = ok () (st\<lparr>globals := (globals st)(n \<mapsto> v)\<rparr>)"

text \<open>
  Attributes: only \<^verbatim>\<open>stdout\<close> and \<^verbatim>\<open>stderr\<close> of module \<^verbatim>\<open>sys\<close> are state of the
  model. Modules, functions and file objects take a new attribute silently; the
  other values refuse it.
\<close>

definition load_attr :: "pyval \<Rightarrow> string \<Rightarrow> pyval py" where
  "load_attr obj a st =
     (if obj = PModule ''sys'' \<and> a = ''stdout'' then ok (sys_stdout st) st
      else if obj = PModule ''sys'' \<and> a = ''stderr'' then ok (sys_stderr st) st
      else throw (AttributeError a) st)"

fun has_dict :: "pyval \<Rightarrow> bool" where
  "has_dict (PModule m) = True"
| "has_dict (PFunction f) = True"
| "has_dict (PBuffer i) = True"
| "has_dict PRealStdout = True"
| "has_dict PRealStderr = True"
| "has_dict PNone = False"
| "has_dict (PInt i) = False"
| "has_dict (PStr s) = False"
| "has_dict (PBuiltin b) = False"

definition store_attr :: "pyval \<Rightarrow> string \<Rightarrow> pyval \<Rightarrow> unit py" where
  "store_attr obj a v st =
     (if obj = PModule ''sys'' \<and> a = ''stdout'' then ok () (st\<lparr>sys_stdout := v\<rparr>)
      else if obj = PModule ''sys'' \<and> a = ''stderr'' then ok () (st\<lparr>sys_stderr := v\<rparr>)
      else if has_dict obj then ok () st
      else throw (AttributeError a) st)"

text \<open>\<^verbatim>\<open>io.StringIO()\<close> and \<^verbatim>\<open>buf.getvalue()\<close>, the two method calls of the wrapper.\<close>

definition call_method :: "pyval \<Rightarrow> string \<Rightarrow> pyval py" where
  "call_method obj m st =
     (if obj = PModule ''io'' \<and> m = ''StringIO''
      then ok (PBuffer (length (buffers st))) (st\<lparr>buffers := buffers st @ [[]]\<rparr>)
      else if m = ''getvalue'' then
        (case obj of
           PBuffer i \<Rightarrow>
             if i < length (buffers st) then ok (PStr (buffers st ! i)) st
             else throw (AttributeError m) st
         | _ \<Rightarrow> throw (AttributeError m) st)
      else throw (AttributeError m) st)"

text \<open>
  \<^verbatim>\<open>f.write(text)\<close>. \<^verbatim>\<open>print(..., file=f)\<close> writes to \<^verbatim>\<open>sys.stdout\<close> when \<open>f\<close> is
  \<^verbatim>\<open>None\<close>, and does nothing when that is \<^verbatim>\<open>None\<close> too.
\<close>

definition file_write :: "pyval \<Rightarrow> string \<Rightarrow> unit py" where
  "file_write f t st =
     (case f of
        PRealStdout \<Rightarrow> ok () (st\<lparr>real_stdout := real_stdout st @ t\<rparr>)
      | PRealStderr \<Rightarrow> ok () (st\<lparr>real_stderr := real_stderr st @ t\<rparr>)
      | PBuffer i \<Rightarrow>
          if i < length (buffers st)
          then ok () (st\<lparr>buffers := (buffers st)[i := buffers st ! i @ t]\<rparr>)
          else throw (AttributeError ''write'') st
      | _ \<Rightarrow> throw (AttributeError ''write'') st)"

definition print_to :: "pyval \<Rightarrow> string \<Rightarrow> unit py" where
  "print_to f t st =
     (if f \<noteq> PNone then file_write f t st
      else if sys_stdout st \<noteq> PNone then file_write (sys_stdout st) t st
      else ok () st)"

text \<open>Decimal numerals, for \<^verbatim>\<open>str\<close> of an \<^verbatim>\<open>int\<close>.\<close>

fun show_digits :: "nat \<Rightarrow> nat \<Rightarrow> string" where
  "show_digits 0 n = []"
| "show_digits (Suc k) n =
     (if n < 10 then [''0123456789'' ! n]
      else show_digits k (n div 10) @ [''0123456789'' ! (n mod 10)])"

definition show_nat :: "nat \<Rightarrow> string" where
  "show_nat n = show_digits (Suc n) n"

fun py_str :: "pyval \<Rightarrow> string" where
  "py_str PNone = ''None''"
| "py_str (PInt i) = (if i < 0 then ''-'' @ show_nat (nat (- i)) else show_nat (nat i))"
| "py_str (PStr s) = s"
| "py_str PRealStdout = ''<_io.TextIOWrapper name=<stdout>>''"
| "py_str PRealStderr = ''<_io.TextIOWrapper name=<stderr>>''"
| "py_str (PBuffer i) = ''<_io.StringIO object>''"
| "py_str (PModule m) = ''<module '' @ m @ ''>''"
| "py_str (PFunction f) = ''<function '' @ f @ ''>''"
| "py_str (PBuiltin b) = ''<built-in '' @ b @ ''>''"

definition py_print :: "pyval \<Rightarrow> unit py" where
  "py_print v = print_to PNone (py_str v @ nl)"

definition format_exc :: "pyexc \<Rightarrow> string" where
  "format_exc e = ''Traceback (most recent call last):'' @ nl @ exc_text e"

text \<open>\<^verbatim>\<open>traceback.print_exc()\<close> prints to \<^verbatim>\<open>sys.stderr\<close>, with \<^verbatim>\<open>print\<close>.\<close>

definition print_exc :: "pyexc \<Rightarrow> unit py" where
  "print_exc e st = print_to (sys_stderr st) (format_exc e) st"

definition builtin_eval :: "runtime \<Rightarrow> pyval \<Rightarrow> pyval py" where
  "builtin_eval rt code st =
     (case code of
        PStr s \<Rightarrow> py_eval rt s st
      | _ \<Rightarrow> throw (TypeError ''eval() arg 1 must be a string, bytes or code object'') st)"

definition builtin_exec :: "runtime \<Rightarrow> pyval \<Rightarrow> unit py" where
  "builtin_exec rt code st =
     (case code of
        PStr s \<Rightarrow> py_exec rt s st
      | _ \<Rightarrow> throw (TypeError ''exec() arg 1 must be a string, bytes or code object'') st)"

text \<open>\<^verbatim>\<open>try: body  except Exception: handler\<close>: the other exceptions pass through.\<close>

definition try_except_Exception :: "'a py \<Rightarrow> (pyexc \<Rightarrow> 'a py) \<Rightarrow> 'a py" where
  "try_except_Exception body handler st =
     (case body st of
        None \<Rightarrow> None
      | Some (Normal v st') \<Rightarrow> Some (Normal v st')
      | Some (Raise e st') \<Rightarrow>
          if exc_kind e = StdException then handler e st' else Some (Raise e st'))"

subsection \<open>The C API calls of applepye.c\<close>

datatype PyGILState_STATE = PyGILState_LOCKED | PyGILState_UNLOCKED

definition Py_IsInitialized :: "interp \<Rightarrow> bool" where
  "Py_IsInitialized st = initialized st"

text \<open>
  \<^verbatim>\<open>Py_Initialize\<close> creates the interpreter: an empty \<^verbatim>\<open>__main__\<close> (its dunder entries
  are not modelled), the standard streams on the real channels, the GIL held by the
  caller.
\<close>

definition Py_Initialize :: "interp \<Rightarrow> interp" where
  "Py_Initialize st =
     st\<lparr>initialized := True, gil_held := True, boots := Suc (boots st),
        globals := Map.empty, sys_stdout := PRealStdout, sys_stderr := PRealStderr\<rparr>"

definition PyEval_InitThreads :: "interp \<Rightarrow> interp" where
  "PyEval_InitThreads st = st"

definition PyEval_SaveThread :: "interp \<Rightarrow> interp" where
  "PyEval_SaveThread st = st\<lparr>gil_held := False\<rparr>"

text \<open>\<^verbatim>\<open>PyGILState_Ensure\<close> requires an initialised interpreter (\<open>None\<close> otherwise).\<close>

definition PyGILState_Ensure :: "interp \<Rightarrow> (PyGILState_STATE \<times> interp) option" where
  "PyGILState_Ensure st =
     (if \<not> initialized st then None
      else Some (if gil_held st then PyGILState_LOCKED else PyGILState_UNLOCKED,
                 st\<lparr>gil_held := True\<rparr>))"

definition PyGILState_Release :: "PyGILState_STATE \<Rightarrow> interp \<Rightarrow> interp" where
  "PyGILState_Release gstate st = st\<lparr>gil_held := (gstate = PyGILState_LOCKED)\<rparr>"


definition PyUnicode_FromString :: "runtime \<Rightarrow> string \<Rightarrow> pyval option" where
  "PyUnicode_FromString rt s = (if decode_ok rt s then Some (PStr s) else None)"

text \<open>
  \<open>py_dict\<close>, the dictionary of \<^verbatim>\<open>__main__\<close> (\<^verbatim>\<open>PyImport_AddModule\<close>,
  \<^verbatim>\<open>PyModule_GetDict\<close>), is the field \<open>globals\<close>.
\<close>

definition PyDict_SetItemString :: "runtime \<Rightarrow> string \<Rightarrow> pyval \<Rightarrow> interp \<Rightarrow> interp option" where
  "PyDict_SetItemString rt key v st =
     (if setitem_ok rt then Some (st\<lparr>globals := (globals st)(key \<mapsto> v)\<rparr>) else None)"

definition PyDict_GetItemString :: "string \<Rightarrow> interp \<Rightarrow> pyval option" where
  "PyDict_GetItemString key st = globals st key"

definition PyDict_DelItemString :: "string \<Rightarrow> interp \<Rightarrow> interp" where
  "PyDict_DelItemString key st = st\<lparr>globals := (globals st)(key := None)\<rparr>"

fun PyUnicode_Check :: "pyval \<Rightarrow> bool" where
  "PyUnicode_Check (PStr s) = True"
| "PyUnicode_Check PNone = False"
| "PyUnicode_Check (PInt i) = False"
| "PyUnicode_Check PRealStdout = False"
| "PyUnicode_Check PRealStderr = False"
| "PyUnicode_Check (PBuffer i) = False"
| "PyUnicode_Check (PModule m) = False"
| "PyUnicode_Check (PFunction f) = False"
| "PyUnicode_Check (PBuiltin b) = False"

definition PyUnicode_AsUTF8 :: "runtime \<Rightarrow> pyval \<Rightarrow> string option" where
  "PyUnicode_AsUTF8 rt v =
     (case v of PStr t \<Rightarrow> if encode_ok rt t then Some t else None | _ \<Rightarrow> None)"

text \<open>
  \<^verbatim>\<open>PyErr_Print\<close>: on \<^verbatim>\<open>SystemExit\<close> the process exits; any other exception is
  printed with its traceback on \<^verbatim>\<open>sys.stderr\<close> (nothing is printed when that is
  \<^verbatim>\<open>None\<close> or cannot be written to).
\<close>

definition PyErr_Print :: "pyexc \<Rightarrow> interp \<Rightarrow> unit c_outcome" where
  "PyErr_Print e st =
     (if exc_kind e = SystemExit then Exited st
      else if sys_stderr st = PNone then Returned () st
      else (case file_write (sys_stderr st) (format_exc e) st of
              Some (Normal u st') \<Rightarrow> Returned () st'
            | _ \<Rightarrow> Returned () st))"

text \<open>
  \<^verbatim>\<open>PyRun_SimpleString\<close> runs a program in \<^verbatim>\<open>__main__\<close>; 0 on success, otherwise the
  exception goes to \<^verbatim>\<open>PyErr_Print\<close> and the result is -1.
\<close>

definition PyRun_SimpleString :: "unit py list \<Rightarrow> interp \<Rightarrow> int c_outcome option" where
  "PyRun_SimpleString prog st =
     (case run_stmts prog st of
        None \<Rightarrow> None
      | Some (Normal u st') \<Rightarrow> Some (Returned 0 st')
      | Some (Raise e st') \<Rightarrow>
          (case PyErr_Print e st' of
             Returned u st'' \<Rightarrow> Some (Returned (- 1) st'')
           | Exited st'' \<Rightarrow> Some (Exited st'')
           | Crashed \<Rightarrow> Some Crashed))"

section \<open>applepye.c\<close>

subsection \<open>\<^verbatim>\<open>_dup_str\<close>\<close>

text \<open>
  A C string ends at its first NUL: \<open>strlen\<close> counts the bytes before it, and the copy
  holds exactly those. \<open>None\<close> is the null pointer.
\<close>

definition strlen :: "string \<Rightarrow> nat" where
  "strlen s = length (takeWhile (\<lambda>c. c \<noteq> CHR 0x00) s)"

definition dup_str :: "runtime \<Rightarrow> string option \<Rightarrow> string option" where
  "dup_str rt s =
     (let s' = (case s of None \<Rightarrow> [] | Some b \<Rightarrow> b);
          n = strlen s'
      in if \<not> malloc_ok rt (n + 1) then None
         else Some (take n s'))"

subsection \<open>\<^verbatim>\<open>applepye_initialize\<close> and \<^verbatim>\<open>applepye_finalize\<close>\<close>

definition applepye_initialize :: "interp \<Rightarrow> unit c_outcome" where
  "applepye_initialize st =
     (if \<not> Py_IsInitialized st
      then Returned () (PyEval_SaveThread (PyEval_InitThreads (Py_Initialize st)))
      else Returned () st)"



subsection \<open>The wrapper program of \<^verbatim>\<open>applepye_execute\<close>\<close>

text \<open>
  \<^verbatim>\<open>_applepye_run(code)\<close>: \<^verbatim>\<open>eval\<close> and print in a \<^verbatim>\<open>try\<close>; on \<^verbatim>\<open>Exception\<close>,
  \<^verbatim>\<open>exec\<close> in a second \<^verbatim>\<open>try\<close>, whose handler prints the traceback. The
  \<^verbatim>\<open>finally: pass\<close> does nothing.
\<close>

definition applepye_run :: "runtime \<Rightarrow> pyval \<Rightarrow> unit py" where
  "applepye_run rt code =
     try_except_Exception
       (bind_py (builtin_eval rt code)
          (\<lambda>val. if val \<noteq> PNone then py_print val else ok ()))
       (\<lambda>e1. try_except_Exception
          (builtin_exec rt code)
          (\<lambda>e. print_exc e))"

definition import_stmt :: "string list \<Rightarrow> unit py" where
  "import_stmt ms = run_stmts (map (\<lambda>m. store_global m (PModule m)) ms)"

definition attr :: "pyval py \<Rightarrow> string \<Rightarrow> pyval py" where
  "attr obj a = bind_py obj (\<lambda>v. load_attr v a)"

definition method_call :: "pyval py \<Rightarrow> string \<Rightarrow> pyval py" where
  "method_call obj m = bind_py obj (\<lambda>v. call_method v m)"

definition assign :: "string \<Rightarrow> pyval py \<Rightarrow> unit py" where
  "assign n e = bind_py e (store_global n)"

text \<open>\<^verbatim>\<open>obj.a = e\<close>: the right-hand side is evaluated first.\<close>

definition assign_attr :: "pyval py \<Rightarrow> string \<Rightarrow> pyval py \<Rightarrow> unit py" where
  "assign_attr obj a e = bind_py e (\<lambda>v. bind_py obj (\<lambda>target. store_attr target a v))"

definition def_stmt :: "string \<Rightarrow> unit py" where
  "def_stmt f = store_global f (PFunction f)"

definition call_stmt :: "runtime \<Rightarrow> pyval py \<Rightarrow> pyval py \<Rightarrow> unit py" where
  "call_stmt rt callee arg =
     bind_py callee (\<lambda>f. bind_py arg (\<lambda>a.
       if f = PFunction ''_applepye_run'' then applepye_run rt a
       else throw (TypeError ''object is not callable'')))"

text \<open>
  The wrapper, statement by statement: the lines up to the \<^verbatim>\<open>def\<close>, the call of
  \<^verbatim>\<open>_applepye_run\<close>, and the three lines after it.
\<close>

definition wrapper_prologue :: "unit py list" where
  "wrapper_prologue =
     [import_stmt [''sys'', ''io''],
      assign ''_applepye_old_stdout'' (attr (load_global ''sys'') ''stdout''),
      assign ''_applepye_old_stderr'' (attr (load_global ''sys'') ''stderr''),
      assign ''_applepye_buf'' (method_call (load_global ''io'') ''StringIO''),
      assign_attr (load_global ''sys'') ''stdout'' (load_global ''_applepye_buf''),
      assign_attr (load_global ''sys'') ''stderr'' (load_global ''_applepye_buf''),
      def_stmt ''_applepye_run'']"

definition wrapper_epilogue :: "unit py list" where
  "wrapper_epilogue =
     [assign ''result'' (method_call (load_global ''_applepye_buf'') ''getvalue''),
      assign_attr (load_global ''sys'') ''stdout'' (load_global ''_applepye_old_stdout''),
      assign_attr (load_global ''sys'') ''stderr'' (load_global ''_applepye_old_stderr'')]"

definition wrapper :: "runtime \<Rightarrow> unit py list" where
  "wrapper rt =
     wrapper_prologue
     @ [call_stmt rt (load_global ''_applepye_run'') (load_global ''__APPLEPYE_CODE__'')]
     @ wrapper_epilogue"

subsection \<open>\<^verbatim>\<open>applepye_execute\<close>\<close>

text \<open>
  The end of \<^verbatim>\<open>applepye_execute\<close>: the global \<^verbatim>\<open>result\<close> is looked up and, when it
  is a \<^verbatim>\<open>str\<close>, its UTF-8 text is duplicated; in every other case the empty string is.
\<close>

definition fetch_result :: "runtime \<Rightarrow> interp \<Rightarrow> string option" where
  "fetch_result rt st =
     (let py_result = PyDict_GetItemString ''result'' st
      in case py_result of
           None \<Rightarrow> dup_str rt (Some [])
         | Some v \<Rightarrow>
             if PyUnicode_Check v
             then (case PyUnicode_AsUTF8 rt v of
                     Some s \<Rightarrow> dup_str rt (Some s)
                   | None \<Rightarrow> dup_str rt (Some []))
             else dup_str rt (Some []))"

definition applepye_execute :: "runtime \<Rightarrow> string option \<Rightarrow> interp \<Rightarrow> string option c_outcome option" where
  "applepye_execute rt code_c st =
     (case code_c of
        None \<Rightarrow> Some (Returned (dup_str rt (Some [])) st)
      | Some src \<Rightarrow>
     (case PyGILState_Ensure st of
        None \<Rightarrow> Some Crashed
      | Some (gstate, st1) \<Rightarrow>
     (case PyUnicode_FromString rt src of
        None \<Rightarrow>
          Some (Returned (dup_str rt (Some ''/* failed to create Python code string */''))
                  (PyGILState_Release gstate st1))
      | Some py_code_obj \<Rightarrow>
     (case PyDict_SetItemString rt ''__APPLEPYE_CODE__'' py_code_obj st1 of
        None \<Rightarrow>
          Some (Returned (dup_str rt (Some ''/* failed to set __APPLEPYE_CODE__ */''))
                  (PyGILState_Release gstate st1))
      | Some st2 \<Rightarrow>
     (case PyRun_SimpleString (wrapper rt) st2 of
        None \<Rightarrow> None
      | Some Crashed \<Rightarrow> Some Crashed
      | Some (Exited st3) \<Rightarrow> Some (Exited st3)
      | Some (Returned res st3) \<Rightarrow>
          (let out = fetch_result rt st3;
               st4 = PyDict_DelItemString ''__APPLEPYE_CODE__'' st3;
               st5 = PyDict_DelItemString ''result'' st4
           in Some (Returned out (PyGILState_Release gstate st5))))))))"

section \<open>A runtime for closed examples: a fragment of Python\<close>

text \<open>
  \<open>py_fragment\<close> interprets sources whose lines are \<^verbatim>\<open>NAME = expr\<close>,
  \<^verbatim>\<open>raise expr\<close>, \<^verbatim>\<open>del NAME\<close> or \<^verbatim>\<open>expr\<close>, with expressions built from decimal
  literals, names, \<^verbatim>\<open>+\<close>, \<^verbatim>\<open>or\<close>, and calls \<^verbatim>\<open>NAME()\<close>, \<^verbatim>\<open>NAME(expr)\<close> of the
  builtins \<^verbatim>\<open>print\<close> and \<^verbatim>\<open>exit\<close> (the latter installed by the \<^verbatim>\<open>site\<close> module,
  which \<^verbatim>\<open>Py_Initialize\<close> imports). On these it follows CPython, except that the
  text of an exception is cut down to its last line. Every other source is answered
  with \<^verbatim>\<open>SyntaxError\<close>, so the instance is meant for sources of the fragment only.
  Its allocator never fails, and \<^verbatim>\<open>PyUnicode_FromString\<close> fails on bytes that are
  not UTF-8.
\<close>

datatype token = TNum nat | TName string | TPlus | TEq | TLPar | TRPar

datatype pending = NoToken | Digits nat | Ident string

definition is_digit :: "char \<Rightarrow> bool" where
  "is_digit c = (c \<in> set ''0123456789'')"

definition digit_value :: "char \<Rightarrow> nat" where
  "digit_value c = of_char c - 48"

definition is_name_char :: "char \<Rightarrow> bool" where
  "is_name_char c = (c \<in> set ''abcdefghijklmnopqrstuvwxyzABCDEFGHIJKLMNOPQRSTUVWXYZ_'')"

fun flush :: "pending \<Rightarrow> token list" where
  "flush NoToken = []"
| "flush (Digits n) = [TNum n]"
| "flush (Ident s) = [TName (rev s)]"

fun symbol :: "char \<Rightarrow> token option" where
  "symbol c =
     (if c = CHR ''+'' then Some TPlus
      else if c = CHR ''='' then Some TEq
      else if c = CHR ''('' then Some TLPar
      else if c = CHR '')'' then Some TRPar
      else None)"

fun tokens :: "pending \<Rightarrow> string \<Rightarrow> token list option" where
  "tokens p [] = Some (flush p)"
| "tokens p (c # cs) =
     (if is_digit c then
        (case p of
           NoToken \<Rightarrow> tokens (Digits (digit_value c)) cs
         | Digits n \<Rightarrow> tokens (Digits (10 * n + digit_value c)) cs
         | Ident s \<Rightarrow> tokens (Ident (c # s)) cs)
      else if is_name_char c then
        (case p of
           NoToken \<Rightarrow> tokens (Ident [c]) cs
         | Digits n \<Rightarrow> None
         | Ident s \<Rightarrow> tokens (Ident (c # s)) cs)
      else if c = CHR '' '' then
        (case tokens NoToken cs of None \<Rightarrow> None | Some ts \<Rightarrow> Some (flush p @ ts))
      else
        (case symbol c of
           None \<Rightarrow> None
         | Some t \<Rightarrow>
             (case tokens NoToken cs of None \<Rightarrow> None | Some ts \<Rightarrow> Some (flush p @ t # ts))))"

datatype expr =
    ENum nat
  | EName string
  | EAdd expr expr
  | EOr expr expr
  | ECall0 string
  | ECall1 string expr

datatype stmt = SAssign string expr | SExpr expr | SRaise expr | SDel string

definition py_keywords :: "string list" where
  "py_keywords =
     [''False'', ''None'', ''True'', ''and'', ''as'', ''assert'', ''async'', ''await'',
      ''break'', ''class'', ''continue'', ''def'', ''del'', ''elif'', ''else'', ''except'',
      ''finally'', ''for'', ''from'', ''global'', ''if'', ''import'', ''in'', ''is'',
      ''lambda'', ''nonlocal'', ''not'', ''or'', ''pass'', ''raise'', ''return'', ''try'',
      ''while'', ''with'', ''yield'']"

text \<open>
  Recursive descent, \<^verbatim>\<open>or\<close> below \<^verbatim>\<open>+\<close> below atoms. The first argument bounds
  the depth of the recursion; \<open>fuel_for\<close> gives enough for the whole token list.
\<close>

fun parse_or :: "nat \<Rightarrow> token list \<Rightarrow> (expr \<times> token list) option"
  and parse_or_rest :: "nat \<Rightarrow> expr \<Rightarrow> token list \<Rightarrow> (expr \<times> token list) option"
  and parse_sum :: "nat \<Rightarrow> token list \<Rightarrow> (expr \<times> token list) option"
  and parse_sum_rest :: "nat \<Rightarrow> expr \<Rightarrow> token list \<Rightarrow> (expr \<times> token list) option"
  and parse_atom :: "nat \<Rightarrow> token list \<Rightarrow> (expr \<times> token list) option"
where
  "parse_or 0 ts = None"
| "parse_or (Suc k) ts =
     (case parse_sum k ts of None \<Rightarrow> None | Some (e, r) \<Rightarrow> parse_or_rest k e r)"
| "parse_or_rest 0 e ts = None"
| "parse_or_rest (Suc k) e ts =
     (case ts of
        TName x # r \<Rightarrow>
          if x = ''or''
          then (case parse_sum k r of None \<Rightarrow> None | Some (e', r') \<Rightarrow> parse_or_rest k (EOr e e') r')
          else Some (e, ts)
      | _ \<Rightarrow> Some (e, ts))"
| "parse_sum 0 ts = None"
| "parse_sum (Suc k) ts =
     (case parse_atom k ts of None \<Rightarrow> None | Some (e, r) \<Rightarrow> parse_sum_rest k e r)"
| "parse_sum_rest 0 e ts = None"
| "parse_sum_rest (Suc k) e ts =
     (case ts of
        TPlus # r \<Rightarrow>
          (case parse_atom k r of None \<Rightarrow> None | Some (e', r') \<Rightarrow> parse_sum_rest k (EAdd e e') r')
      | _ \<Rightarrow> Some (e, ts))"
| "parse_atom 0 ts = None"
| "parse_atom (Suc k) ts =
     (case ts of
        TNum n # r \<Rightarrow> Some (ENum n, r)
      | TName x # TLPar # TRPar # r \<Rightarrow> if x \<in> set py_keywords then None else Some (ECall0 x, r)
      | TName x # TLPar # r \<Rightarrow>
          if x \<in> set py_keywords then None
          else (case parse_or k r of
                  Some (e, TRPar # r') \<Rightarrow> Some (ECall1 x e, r')
                | _ \<Rightarrow> None)
      | TName x # r \<Rightarrow> if x \<in> set py_keywords then None else Some (EName x, r)
      | _ \<Rightarrow> None)"

fun fuel_for :: "token list \<Rightarrow> nat" where
  "fuel_for [] = Suc (Suc (Suc (Suc 0)))"
| "fuel_for (t # ts) = Suc (Suc (Suc (Suc (fuel_for ts))))"

definition parse_expr :: "token list \<Rightarrow> expr option" where
  "parse_expr ts = (case parse_or (fuel_for ts) ts of Some (e, []) \<Rightarrow> Some e | _ \<Rightarrow> None)"

definition parse_stmt :: "token list \<Rightarrow> stmt option" where
  "parse_stmt ts =
     (case ts of
        TName x # TEq # r \<Rightarrow>
          if x \<in> set py_keywords then None else map_option (SAssign x) (parse_expr r)
      | TName x # r \<Rightarrow>
          if x = ''raise'' then map_option SRaise (parse_expr r)
          else if x = ''del'' then
            (case r of [TName y] \<Rightarrow> if y \<in> set py_keywords then None else Some (SDel y) | _ \<Rightarrow> None)
          else map_option SExpr (parse_expr ts)
      | _ \<Rightarrow> map_option SExpr (parse_expr ts))"

fun split_lines :: "string \<Rightarrow> string \<Rightarrow> string list" where
  "split_lines cur [] = [rev cur]"
| "split_lines cur (c # cs) =
     (if c = CHR 0x0A then rev cur # split_lines [] cs else split_lines (c # cur) cs)"

definition blank :: "string \<Rightarrow> bool" where
  "blank l = (dropWhile (\<lambda>c. c = CHR '' '') l = [])"

text \<open>
  \<^verbatim>\<open>eval\<close> takes one expression, with spaces before it and blank lines around it
  allowed; \<^verbatim>\<open>exec\<close> takes a sequence of lines, none of them indented, and compiles
  all of them before it runs the first.
\<close>

definition parse_eval_input :: "string \<Rightarrow> expr option" where
  "parse_eval_input src =
     (case filter (\<lambda>l. \<not> blank l) (split_lines [] src) of
        [l] \<Rightarrow> (case tokens NoToken l of None \<Rightarrow> None | Some ts \<Rightarrow> parse_expr ts)
      | _ \<Rightarrow> None)"

fun parse_lines :: "string list \<Rightarrow> stmt list option" where
  "parse_lines [] = Some []"
| "parse_lines (l # ls) =
     (if blank l then parse_lines ls
      else if hd l = CHR '' '' then None
      else (case tokens NoToken l of
              None \<Rightarrow> None
            | Some ts \<Rightarrow>
                (case parse_stmt ts of
                   None \<Rightarrow> None
                 | Some s \<Rightarrow> map_option ((#) s) (parse_lines ls))))"

definition parse_file_input :: "string \<Rightarrow> stmt list option" where
  "parse_file_input src = parse_lines (split_lines [] src)"

definition exception_classes :: "(string \<times> exc_kind) list" where
  "exception_classes =
     [(''Exception'', StdException), (''ValueError'', StdException),
      (''KeyboardInterrupt'', KeyboardInterrupt), (''SystemExit'', SystemExit)]"

definition builtin_names :: "string list" where
  "builtin_names = ''print'' # ''exit'' # map fst exception_classes"

definition lookup_name :: "string \<Rightarrow> interp \<Rightarrow> pyval outcome" where
  "lookup_name x st =
     (case globals st x of
        Some v \<Rightarrow> Normal v st
      | None \<Rightarrow>
          if x \<in> set builtin_names then Normal (PBuiltin x) st else Raise (NameError x) st)"

fun truthy :: "pyval \<Rightarrow> bool" where
  "truthy PNone = False"
| "truthy (PInt i) = (i \<noteq> 0)"
| "truthy (PStr s) = (s \<noteq> [])"
| "truthy PRealStdout = True"
| "truthy PRealStderr = True"
| "truthy (PBuffer i) = True"
| "truthy (PModule m) = True"
| "truthy (PFunction f) = True"
| "truthy (PBuiltin b) = True"

definition py_add :: "pyval \<Rightarrow> pyval \<Rightarrow> interp \<Rightarrow> pyval outcome" where
  "py_add u v st =
     (case (u, v) of
        (PInt a, PInt b) \<Rightarrow> Normal (PInt (a + b)) st
      | (PStr a, PStr b) \<Rightarrow> Normal (PStr (a @ b)) st
      | _ \<Rightarrow> Raise (TypeError ''unsupported operand type(s) for +'') st)"

definition call_builtin :: "pyval \<Rightarrow> pyval option \<Rightarrow> interp \<Rightarrow> pyval outcome" where
  "call_builtin f arg st =
     (if f = PBuiltin ''print'' then
        (case print_to PNone ((case arg of None \<Rightarrow> [] | Some v \<Rightarrow> py_str v) @ nl) st of
           Some (Normal u st') \<Rightarrow> Normal PNone st'
         | Some (Raise e st') \<Rightarrow> Raise e st'
         | None \<Rightarrow> Raise (TypeError ''print'') st)
      else if f = PBuiltin ''exit'' then Raise (PyExc SystemExit (''SystemExit'' @ nl)) st
      else Raise (TypeError ''object is not callable'') st)"

fun eval_expr :: "expr \<Rightarrow> interp \<Rightarrow> pyval outcome" where
  "eval_expr (ENum n) st = Normal (PInt (int n)) st"
| "eval_expr (EName x) st = lookup_name x st"
| "eval_expr (EAdd a b) st =
     (case eval_expr a st of
        Raise e st1 \<Rightarrow> Raise e st1
      | Normal u st1 \<Rightarrow>
          (case eval_expr b st1 of
             Raise e st2 \<Rightarrow> Raise e st2
           | Normal v st2 \<Rightarrow> py_add u v st2))"
| "eval_expr (EOr a b) st =
     (case eval_expr a st of
        Raise e st1 \<Rightarrow> Raise e st1
      | Normal u st1 \<Rightarrow> if truthy u then Normal u st1 else eval_expr b st1)"
| "eval_expr (ECall0 f) st =
     (case lookup_name f st of
        Raise e st1 \<Rightarrow> Raise e st1
      | Normal c st1 \<Rightarrow> call_builtin c None st1)"
| "eval_expr (ECall1 f a) st =
     (case lookup_name f st of
        Raise e st1 \<Rightarrow> Raise e st1
      | Normal c st1 \<Rightarrow>
          (case eval_expr a st1 of
             Raise e st2 \<Rightarrow> Raise e st2
           | Normal v st2 \<Rightarrow> call_builtin c (Some v) st2))"

definition raise_value :: "pyval \<Rightarrow> interp \<Rightarrow> unit outcome" where
  "raise_value v st =
     (case v of
        PBuiltin c \<Rightarrow>
          (case map_of exception_classes c of
             Some k \<Rightarrow> Raise (PyExc k (c @ nl)) st
           | None \<Rightarrow> Raise (TypeError ''exceptions must derive from BaseException'') st)
      | _ \<Rightarrow> Raise (TypeError ''exceptions must derive from BaseException'') st)"

fun exec_stmt :: "stmt \<Rightarrow> interp \<Rightarrow> unit outcome" where
  "exec_stmt (SAssign x e) st =
     (case eval_expr e st of
        Raise ex st1 \<Rightarrow> Raise ex st1
      | Normal v st1 \<Rightarrow> Normal () (st1\<lparr>globals := (globals st1)(x \<mapsto> v)\<rparr>))"
| "exec_stmt (SExpr e) st =
     (case eval_expr e st of
        Raise ex st1 \<Rightarrow> Raise ex st1
      | Normal v st1 \<Rightarrow> Normal () st1)"
| "exec_stmt (SRaise e) st =
     (case eval_expr e st of
        Raise ex st1 \<Rightarrow> Raise ex st1
      | Normal v st1 \<Rightarrow> raise_value v st1)"
| "exec_stmt (SDel x) st =
     (if globals st x = None then Raise (NameError x) st
      else Normal () (st\<lparr>globals := (globals st)(x := None)\<rparr>))"

fun exec_stmts :: "stmt list \<Rightarrow> interp \<Rightarrow> unit outcome" where
  "exec_stmts [] st = Normal () st"
| "exec_stmts (s # ss) st =
     (case exec_stmt s st of
        Raise ex st1 \<Rightarrow> Raise ex st1
      | Normal u st1 \<Rightarrow> exec_stmts ss st1)"

definition fragment_eval :: "string \<Rightarrow> pyval py" where
  "fragment_eval src st =
     (case parse_eval_input src of
        None \<Rightarrow> Some (Raise SyntaxError st)
      | Some e \<Rightarrow> Some (eval_expr e st))"

definition fragment_exec :: "string \<Rightarrow> unit py" where
  "fragment_exec src st =
     (case parse_file_input src of
        None \<Rightarrow> Some (Raise SyntaxError st)
      | Some ss \<Rightarrow> Some (exec_stmts ss st))"

text \<open>Well-formed UTF-8, on the byte values.\<close>

definition continuation :: "nat \<Rightarrow> bool" where
  "continuation b = (128 \<le> b \<and> b < 192)"

fun utf8 :: "nat list \<Rightarrow> bool" where
  "utf8 [] = True"
| "utf8 (b # bs) =
     (if b < 128 then utf8 bs
      else if 194 \<le> b \<and> b < 224 then
        (case bs of c1 # r \<Rightarrow> continuation c1 \<and> utf8 r | _ \<Rightarrow> False)
      else if 224 \<le> b \<and> b < 240 then
        (case bs of
           c1 # c2 # r \<Rightarrow>
             continuation c1 \<and> continuation c2
             \<and> (if b = 224 then 160 \<le> c1 else True)
             \<and> (if b = 237 then c1 < 160 else True)
             \<and> utf8 r
         | _ \<Rightarrow> False)
      else if 240 \<le> b \<and> b < 245 then
        (case bs of
           c1 # c2 # c3 # r \<Rightarrow>
             continuation c1 \<and> continuation c2 \<and> continuation c3
             \<and> (if b = 240 then 144 \<le> c1 else True)
             \<and> (if b = 244 then c1 < 144 else True)
             \<and> utf8 r
         | _ \<Rightarrow> False)
      else False)"

definition py_fragment :: runtime where
  "py_fragment =
     \<lparr>malloc_ok = (\<lambda>n. True),
      decode_ok = (\<lambda>s. utf8 (map of_char s)),
      setitem_ok = True,
      encode_ok = (\<lambda>t. True),
      py_eval = fragment_eval,
      py_exec = fragment_exec\<rparr>"

text \<open>The process before any call, and a runtime that is out of memory.\<close>

definition process_start :: interp where
  "process_start =
     \<lparr>initialized = False, gil_held = False, boots = 0, globals = Map.empty,
      sys_stdout = PNone, sys_stderr = PNone, real_stdout = [], real_stderr = [],
      buffers = []\<rparr>"

definition out_of_memory :: "runtime \<Rightarrow> runtime" where
  "out_of_memory rt = rt\<lparr>malloc_ok := (\<lambda>n. False)\<rparr>"

section \<open>Notions used in the statements\<close>

fun state_of :: "'a outcome \<Rightarrow> interp" where
  "state_of (Normal v st) = st"
| "state_of (Raise e st) = st"

fun std_outcome :: "'a outcome \<Rightarrow> bool" where
  "std_outcome (Normal v st) = True"
| "std_outcome (Raise e st) = (exc_kind e = StdException)"

text \<open>
  The state in which \<^verbatim>\<open>_applepye_run\<close> is entered, when \<^verbatim>\<open>applepye_execute\<close> is
  called with source \<open>src\<close> in state \<open>st\<close>: the GIL is taken, the source is bound,
  the helper names are bound and both channels are on a new, empty buffer.
\<close>

definition script_entry :: "string \<Rightarrow> interp \<Rightarrow> interp" where
  "script_entry src st =
     st\<lparr>gil_held := True,
        globals := (globals st)
          (''__APPLEPYE_CODE__'' \<mapsto> PStr src,
           ''sys'' \<mapsto> PModule ''sys'',
           ''io'' \<mapsto> PModule ''io'',
           ''_applepye_old_stdout'' \<mapsto> sys_stdout st,
           ''_applepye_old_stderr'' \<mapsto> sys_stderr st,
           ''_applepye_buf'' \<mapsto> PBuffer (length (buffers st)),
           ''_applepye_run'' \<mapsto> PFunction ''_applepye_run''),
        sys_stdout := PBuffer (length (buffers st)),
        sys_stderr := PBuffer (length (buffers st)),
        buffers := buffers st @ [[]]\<rparr>"






text \<open>The process after its first \<^verbatim>\<open>applepye_initialize()\<close>.\<close>

definition ready :: interp where
  "ready = (case applepye_initialize process_start of Returned u st \<Rightarrow> st | _ \<Rightarrow> process_start)"

section \<open>How a call of \<^verbatim>\<open>applepye_execute\<close> unfolds\<close>

lemmas py_defs = ok_def throw_def bind_py_def load_global_def store_global_def load_attr_def
  store_attr_def call_method_def attr_def method_call_def assign_def assign_attr_def def_stmt_def
  call_stmt_def import_stmt_def

lemmas fragment_defs = py_fragment_def fragment_eval_def fragment_exec_def parse_eval_input_def
  parse_file_input_def parse_expr_def parse_stmt_def blank_def is_digit_def is_name_char_def
  digit_value_def py_keywords_def lookup_name_def builtin_names_def exception_classes_def
  call_builtin_def py_add_def raise_value_def continuation_def

lemmas ready_defs = ready_def applepye_initialize_def Py_IsInitialized_def process_start_def
  Py_Initialize_def PyEval_InitThreads_def PyEval_SaveThread_def

lemma run_stmts_append:
  "run_stmts (xs @ ys) st =
     (case run_stmts xs st of
        None \<Rightarrow> None
      | Some (Normal u s) \<Rightarrow> run_stmts ys s
      | Some (Raise e s) \<Rightarrow> Some (Raise e s))"
  by (induction xs arbitrary: st) (auto split: option.splits outcome.splits)

lemma prologue_run:
  "run_stmts wrapper_prologue
     (st\<lparr>gil_held := True, globals := (globals st)(''__APPLEPYE_CODE__'' \<mapsto> PStr src)\<rparr>) =
   Some (Normal () (script_entry src st))"
  by (simp add: wrapper_prologue_def py_defs script_entry_def)

lemma script_entry_globals [simp]:
  "globals (script_entry src st) ''_applepye_run'' = Some (PFunction ''_applepye_run'')"
  "globals (script_entry src st) ''__APPLEPYE_CODE__'' = Some (PStr src)"
  "globals (script_entry src st) ''_applepye_buf'' = Some (PBuffer (length (buffers st)))"
  by (simp_all add: script_entry_def)

lemma script_entry_fields [simp]:
  "initialized (script_entry src st) = initialized st"
  "sys_stdout (script_entry src st) = PBuffer (length (buffers st))"
  "sys_stderr (script_entry src st) = PBuffer (length (buffers st))"
  "buffers (script_entry src st) = buffers st @ [[]]"
  by (simp_all add: script_entry_def)


lemma wrapper_run:
  "run_stmts (wrapper rt)
     (st\<lparr>gil_held := True, globals := (globals st)(''__APPLEPYE_CODE__'' \<mapsto> PStr src)\<rparr>) =
     (case applepye_run rt (PStr src) (script_entry src st) of
        None \<Rightarrow> None
      | Some (Normal u s) \<Rightarrow> run_stmts wrapper_epilogue s
      | Some (Raise e s) \<Rightarrow> Some (Raise e s))"
  by (simp add: wrapper_def run_stmts_append prologue_run call_stmt_def bind_py_def
        load_global_def ok_def
      split: option.splits outcome.splits)

text \<open>
  The three lines after the call always end, with an exception of class
  \<^verbatim>\<open>Exception\<close> if with any, and touch no global but \<^verbatim>\<open>result\<close>.
\<close>

lemma epilogue_frame:
  "\<exists>r. run_stmts wrapper_epilogue s = Some r \<and> std_outcome r
       \<and> (\<forall>n. n \<noteq> ''result'' \<longrightarrow> globals (state_of r) n = globals s n)
       \<and> initialized (state_of r) = initialized s"
  by (auto simp add: wrapper_epilogue_def py_defs NameError_def AttributeError_def
      split: option.splits pyval.splits)

lemma epilogue_result:
  "globals s ''_applepye_buf'' = Some (PBuffer b) \<Longrightarrow> b < length (buffers s) \<Longrightarrow>
   \<exists>r. run_stmts wrapper_epilogue s = Some r
       \<and> globals (state_of r) ''result'' = Some (PStr (buffers s ! b))"
  by (auto simp add: wrapper_epilogue_def py_defs NameError_def AttributeError_def
      split: option.splits pyval.splits)

lemma PyErr_Print_returns:
  "exc_kind e \<noteq> SystemExit \<Longrightarrow>
   \<exists>s'. PyErr_Print e s = Returned () s' \<and> globals s' = globals s
        \<and> sys_stdout s' = sys_stdout s \<and> sys_stderr s' = sys_stderr s
        \<and> initialized s' = initialized s"
  by (auto simp add: PyErr_Print_def file_write_def ok_def throw_def split: pyval.splits)

lemma execute_unfold:
  assumes "initialized st" and "decode_ok rt src" and "setitem_ok rt"
  shows "applepye_execute rt (Some src) st =
     (case PyRun_SimpleString (wrapper rt)
             (st\<lparr>gil_held := True, globals := (globals st)(''__APPLEPYE_CODE__'' \<mapsto> PStr src)\<rparr>) of
        None \<Rightarrow> None
      | Some Crashed \<Rightarrow> Some Crashed
      | Some (Exited s3) \<Rightarrow> Some (Exited s3)
      | Some (Returned res s3) \<Rightarrow>
          Some (Returned (fetch_result rt s3)
            (s3\<lparr>gil_held := gil_held st,
                globals := (globals s3)(''__APPLEPYE_CODE__'' := None, ''result'' := None)\<rparr>)))"
  using assms
  by (simp add: applepye_execute_def PyGILState_Ensure_def PyUnicode_FromString_def
        PyDict_SetItemString_def PyDict_DelItemString_def PyGILState_Release_def Let_def
      split: option.splits c_outcome.splits)

text \<open>When \<^verbatim>\<open>_applepye_run\<close> returns, so does the call.\<close>

lemma execute_normal_run:
  assumes "initialized st" and "decode_ok rt src" and "setitem_ok rt"
    and run: "applepye_run rt (PStr src) (script_entry src st) = Some (Normal u s)"
  shows "\<exists>s3 st'. applepye_execute rt (Some src) st = Some (Returned (fetch_result rt s3) st')
      \<and> (\<forall>n. n \<noteq> ''result'' \<longrightarrow> globals s3 n = globals s n)
      \<and> (\<forall>b. globals s ''_applepye_buf'' = Some (PBuffer b) \<longrightarrow> b < length (buffers s)
             \<longrightarrow> globals s3 ''result'' = Some (PStr (buffers s ! b)))
      \<and> globals st' = (globals s3)(''__APPLEPYE_CODE__'' := None, ''result'' := None)
      \<and> initialized st' = initialized s"
proof -
  obtain r where r: "run_stmts wrapper_epilogue s = Some r" "std_outcome r"
      "\<forall>n. n \<noteq> ''result'' \<longrightarrow> globals (state_of r) n = globals s n"
      "initialized (state_of r) = initialized s"
    using epilogue_frame [of s] by blast
  have res: "globals (state_of r) ''result'' = Some (PStr (buffers s ! b))"
    if "globals s ''_applepye_buf'' = Some (PBuffer b)" "b < length (buffers s)" for b
    using epilogue_result [OF that] r(1) by auto
  show ?thesis
  proof (cases r)
    case (Normal v s')
    with r res show ?thesis
      by (simp add: execute_unfold [OF assms(1-3)] PyRun_SimpleString_def wrapper_run run)
         (rule exI [of _ s'], simp)
  next
    case (Raise e s')
    with r have "exc_kind e \<noteq> SystemExit" by simp
    from PyErr_Print_returns [OF this, of s'] obtain s'' where
      "PyErr_Print e s' = Returned () s''" "globals s'' = globals s'"
      "initialized s'' = initialized s'" by blast
    with Raise r res show ?thesis
      by (simp add: execute_unfold [OF assms(1-3)] PyRun_SimpleString_def wrapper_run run)
         (rule exI [of _ s''], simp)
  qed
qed



lemma strlen_no_nul: "CHR 0x00 \<notin> set t \<Longrightarrow> strlen t = length t"
  by (induction t) (auto simp add: strlen_def)

lemma fetch_result_text:
  assumes "globals s ''result'' = Some (PStr t)" and "encode_ok rt t"
    and "CHR 0x00 \<notin> set t" and "malloc_ok rt (Suc (length t))"
  shows "fetch_result rt s = Some t"
  using assms
  by (simp add: fetch_result_def PyDict_GetItemString_def PyUnicode_AsUTF8_def dup_str_def
        strlen_no_nul Let_def)

lemma run_eval_value:
  assumes "py_eval rt src s = Some (Normal v s1)" and "v \<noteq> PNone"
    and "sys_stdout s1 = PBuffer b" and "b < length (buffers s1)"
  shows "applepye_run rt (PStr src) s =
     Some (Normal () (s1\<lparr>buffers := (buffers s1)[b := buffers s1 ! b @ py_str v @ nl]\<rparr>))"
  using assms
  by (simp add: applepye_run_def try_except_Exception_def bind_py_def builtin_eval_def
        py_print_def print_to_def file_write_def ok_def)


lemma run_exec_normal:
  assumes "py_eval rt src s = Some (Raise e1 s1)" and "exc_kind e1 = StdException"
    and "py_exec rt src s1 = Some (Normal () s2)"
  shows "applepye_run rt (PStr src) s = Some (Normal () s2)"
  using assms
  by (simp add: applepye_run_def try_except_Exception_def bind_py_def builtin_eval_def
        builtin_exec_def)

text \<open>
  When \<^verbatim>\<open>_applepye_run\<close> returns with the global \<^verbatim>\<open>_applepye_buf\<close> on a buffer,
  the call returns the text of that buffer.
\<close>

lemma execute_returns_buffer:
  assumes init: "initialized st" and dec: "decode_ok rt src" and set: "setitem_ok rt"
    and run: "applepye_run rt (PStr src) (script_entry src st) = Some (Normal () s)"
    and buf: "globals s ''_applepye_buf'' = Some (PBuffer b)"
    and len: "b < length (buffers s)"
    and nul: "CHR 0x00 \<notin> set (buffers s ! b)"
    and enc: "encode_ok rt (buffers s ! b)"
    and mem: "malloc_ok rt (Suc (length (buffers s ! b)))"
  shows "\<exists>st'. applepye_execute rt (Some src) st = Some (Returned (Some (buffers s ! b)) st')
      \<and> (\<forall>n. n \<noteq> ''result'' \<and> n \<noteq> ''__APPLEPYE_CODE__'' \<longrightarrow> globals st' n = globals s n)
      \<and> initialized st' = initialized s"
proof -
  from execute_normal_run [OF init dec set run] obtain s3 st' where
    call: "applepye_execute rt (Some src) st = Some (Returned (fetch_result rt s3) st')"
    and frame: "\<forall>n. n \<noteq> ''result'' \<longrightarrow> globals s3 n = globals s n"
    and res: "\<forall>c. globals s ''_applepye_buf'' = Some (PBuffer c) \<longrightarrow> c < length (buffers s)
             \<longrightarrow> globals s3 ''result'' = Some (PStr (buffers s ! c))"
    and glob: "globals st' = (globals s3)(''__APPLEPYE_CODE__'' := None, ''result'' := None)"
    and ini: "initialized st' = initialized s"
    by blast
  from res buf len have "globals s3 ''result'' = Some (PStr (buffers s ! b))"
    by simp
  from fetch_result_text [OF this enc nul mem] call frame glob ini
  show ?thesis
    by simp
qed









section \<open>The claims\<close>




text \<open>
  C2, at the failing input. Before the call \<^verbatim>\<open>sys.stdout\<close> and \<^verbatim>\<open>sys.stderr\<close> are
  the real channels; after \<^verbatim>\<open>applepye_execute("raise KeyboardInterrupt")\<close> has
  returned, both are still the buffer of that call: the two restoring lines of the
  wrapper were skipped. After \<^verbatim>\<open>applepye_execute("x")\<close>, whose \<^verbatim>\<open>NameError\<close> is
  caught inside \<^verbatim>\<open>_applepye_run\<close>, both are the real channels again.
\<close>

theorem channels_left_redirected:
  "sys_stdout ready = PRealStdout \<and> sys_stderr ready = PRealStderr
   \<and> map_option sys_stdout
       (outcome_state (applepye_execute py_fragment (Some ''raise KeyboardInterrupt'') ready))
     = Some (PBuffer 0)
   \<and> map_option sys_stderr
       (outcome_state (applepye_execute py_fragment (Some ''raise KeyboardInterrupt'') ready))
     = Some (PBuffer 0)
   \<and> map_option sys_stdout (outcome_state (applepye_execute py_fragment (Some ''x'') ready))
     = Some PRealStdout
   \<and> map_option sys_stderr (outcome_state (applepye_execute py_fragment (Some ''x'') ready))
     = Some PRealStderr"
  by code_simp

text \<open>
  C3, at the failing input. When \<^verbatim>\<open>malloc\<close> fails, \<^verbatim>\<open>applepye_execute\<close> returns the
  null pointer, for the null source and for the source \<^verbatim>\<open>1 + 2\<close> alike.
\<close>

theorem execute_returns_null:
  "outcome_value (applepye_execute (out_of_memory py_fragment) None ready) = Some None
   \<and> outcome_value (applepye_execute (out_of_memory py_fragment) (Some ''1 + 2'') ready)
     = Some None"
  by code_simp







text \<open>
  C6. In an initialised interpreter, \<^verbatim>\<open>applepye_execute("x = 5")\<close> returns the empty
  string and leaves \<^verbatim>\<open>x\<close> bound to 5 in the global namespace, and
  \<^verbatim>\<open>applepye_execute("x + 1")\<close> in the state it left returns \<^verbatim>\<open>6\<close> and a newline.
\<close>

theorem state_persists:
  assumes init: "initialized st"
  shows "\<exists>st1. applepye_execute py_fragment (Some ''x = 5'') st = Some (Returned (Some []) st1)
           \<and> globals st1 ''x'' = Some (PInt 5)
           \<and> outcome_value (applepye_execute py_fragment (Some ''x + 1'') st1)
               = Some (Some (''6'' @ nl))"
proof -
  let ?e1 = "script_entry ''x = 5'' st"
  let ?s1 = "?e1\<lparr>globals := (globals ?e1)(''x'' \<mapsto> PInt 5)\<rparr>"
  have dec: "decode_ok py_fragment ''x = 5''" "decode_ok py_fragment ''x + 1''"
    "setitem_ok py_fragment"
    by (simp_all add: fragment_defs)
  have k: "exc_kind SyntaxError = StdException"
    by (simp add: SyntaxError_def)
  have ev1: "py_eval py_fragment ''x = 5'' ?e1 = Some (Raise SyntaxError ?e1)"
    by (simp add: fragment_defs)
  have ex1: "py_exec py_fragment ''x = 5'' ?e1 = Some (Normal () ?s1)"
    by (simp add: fragment_defs)
  have t1: "buffers ?s1 ! length (buffers st) = []"
    by simp
  have "\<exists>st'. applepye_execute py_fragment (Some ''x = 5'') st =
          Some (Returned (Some (buffers ?s1 ! length (buffers st))) st')
      \<and> (\<forall>n. n \<noteq> ''result'' \<and> n \<noteq> ''__APPLEPYE_CODE__'' \<longrightarrow> globals st' n = globals ?s1 n)
      \<and> initialized st' = initialized ?s1"
    by (rule execute_returns_buffer [OF init dec(1) dec(3) run_exec_normal [OF ev1 k ex1]])
       (simp_all add: py_fragment_def)
  then obtain st1 where
    call1: "applepye_execute py_fragment (Some ''x = 5'') st = Some (Returned (Some []) st1)"
    and frame: "\<forall>n. n \<noteq> ''result'' \<and> n \<noteq> ''__APPLEPYE_CODE__'' \<longrightarrow> globals st1 n = globals ?s1 n"
    and init1': "initialized st1 = initialized ?s1"
    unfolding t1 by blast
  from init1' init have init1: "initialized st1"
    by simp
  from frame have x: "globals st1 ''x'' = Some (PInt 5)"
    by simp
  let ?e2 = "script_entry ''x + 1'' st1"
  let ?s2 = "?e2\<lparr>buffers := (buffers ?e2)[length (buffers st1) :=
                buffers ?e2 ! length (buffers st1) @ py_str (PInt 6) @ nl]\<rparr>"
  have six: "show_nat 6 = ''6''"
    by code_simp
  have ev2: "py_eval py_fragment ''x + 1'' ?e2 = Some (Normal (PInt 6) ?e2)"
    using x by (simp add: fragment_defs script_entry_def)
  have run2: "applepye_run py_fragment (PStr ''x + 1'') ?e2 = Some (Normal () ?s2)"
    by (rule run_eval_value [OF ev2]) simp_all
  have t2: "buffers ?s2 ! length (buffers st1) = ''6'' @ nl"
    by (simp add: six)
  have "\<exists>st'. applepye_execute py_fragment (Some ''x + 1'') st1 =
          Some (Returned (Some (buffers ?s2 ! length (buffers st1))) st')
      \<and> (\<forall>n. n \<noteq> ''result'' \<and> n \<noteq> ''__APPLEPYE_CODE__'' \<longrightarrow> globals st' n = globals ?s2 n)
      \<and> initialized st' = initialized ?s2"
    by (rule execute_returns_buffer [OF init1 dec(2) dec(3) run2])
       (simp_all add: py_fragment_def six nl_def)
  then obtain st2 where
    "applepye_execute py_fragment (Some ''x + 1'') st1 = Some (Returned (Some (''6'' @ nl)) st2)"
    unfolding t2 by blast
  then have "outcome_value (applepye_execute py_fragment (Some ''x + 1'') st1)
               = Some (Some (''6'' @ nl))"
    by simp
  with call1 x show ?thesis
    by blast
qed

text \<open>C6, witness: the process just initialised.\<close>

theorem state_persists_witness:
  "\<exists>st1. applepye_execute py_fragment (Some ''x = 5'') ready = Some (Returned (Some []) st1)
           \<and> globals st1 ''x'' = Some (PInt 5)
           \<and> outcome_value (applepye_execute py_fragment (Some ''x + 1'') st1)
               = Some (Some (''6'' @ nl))"
  using state_persists [of ready]
  by (simp add: ready_defs)

text \<open>
  C7. When the one byte of the result can be allocated, \<^verbatim>\<open>applepye_execute(NULL)\<close>
  returns the empty string and leaves the interpreter as it is, initialised or not;
  and in an initialised interpreter for which the empty source is no expression and,
  as a statement sequence, does nothing, \<^verbatim>\<open>applepye_execute("")\<close> returns the empty
  string.
\<close>

theorem execute_null_and_empty:
  assumes mem: "malloc_ok rt 1"
  shows "applepye_execute rt None st = Some (Returned (Some []) st)
     \<and> (initialized st \<and> decode_ok rt [] \<and> setitem_ok rt \<and> encode_ok rt []
        \<and> (\<exists>e. py_eval rt [] (script_entry [] st) = Some (Raise e (script_entry [] st))
               \<and> exc_kind e = StdException)
        \<and> py_exec rt [] (script_entry [] st) = Some (Normal () (script_entry [] st))
        \<longrightarrow> outcome_value (applepye_execute rt (Some []) st) = Some (Some []))"
proof (intro conjI impI)
  show "applepye_execute rt None st = Some (Returned (Some []) st)"
    using mem by (simp add: applepye_execute_def dup_str_def strlen_def)
next
  assume a: "initialized st \<and> decode_ok rt [] \<and> setitem_ok rt \<and> encode_ok rt []
        \<and> (\<exists>e. py_eval rt [] (script_entry [] st) = Some (Raise e (script_entry [] st))
               \<and> exc_kind e = StdException)
        \<and> py_exec rt [] (script_entry [] st) = Some (Normal () (script_entry [] st))"
  then obtain e where ev: "py_eval rt [] (script_entry [] st) = Some (Raise e (script_entry [] st))"
    and k: "exc_kind e = StdException"
    by blast
  from a have ex: "py_exec rt [] (script_entry [] st) = Some (Normal () (script_entry [] st))"
    and init: "initialized st" and dec: "decode_ok rt []" and set: "setitem_ok rt"
    and enc: "encode_ok rt []"
    by simp_all
  have t: "buffers (script_entry [] st) ! length (buffers st) = []"
    by simp
  have "\<exists>st'. applepye_execute rt (Some []) st =
          Some (Returned (Some (buffers (script_entry [] st) ! length (buffers st))) st')
      \<and> (\<forall>n. n \<noteq> ''result'' \<and> n \<noteq> ''__APPLEPYE_CODE__''
             \<longrightarrow> globals st' n = globals (script_entry [] st) n)
      \<and> initialized st' = initialized (script_entry [] st)"
    by (rule execute_returns_buffer [OF init dec set run_exec_normal [OF ev k ex]])
       (use enc mem in simp_all)
  then obtain st' where
    "applepye_execute rt (Some []) st =
       Some (Returned (Some (buffers (script_entry [] st) ! length (buffers st))) st')"
    by blast
  then show "outcome_value (applepye_execute rt (Some []) st) = Some (Some [])"
    unfolding t by simp
qed

text \<open>
  C7, witness: the null source before initialisation, the empty source after it.
\<close>

theorem execute_null_and_empty_witness:
  "applepye_execute py_fragment None process_start = Some (Returned (Some []) process_start)
   \<and> outcome_value (applepye_execute py_fragment (Some []) ready) = Some (Some [])"
  using execute_null_and_empty [of py_fragment process_start]
    execute_null_and_empty [of py_fragment ready]
  by (simp add: fragment_defs ready_defs SyntaxError_def)

text \<open>
  C8. In an initialised interpreter, when the \<^verbatim>\<open>str\<close> for the source cannot be
  constructed, or it can but cannot be bound in the global namespace,
  \<^verbatim>\<open>applepye_execute\<close> returns the fixed diagnostic of that failure (its copy being
  allocated) and leaves the interpreter as it found it: the source is neither
  evaluated nor executed.
\<close>

theorem construction_or_binding_failure:
  assumes "initialized st"
  shows "(\<not> decode_ok rt src
          \<and> malloc_ok rt (Suc (length ''/* failed to create Python code string */'')) \<longrightarrow>
            applepye_execute rt (Some src) st =
              Some (Returned (Some ''/* failed to create Python code string */'') st))
       \<and> (decode_ok rt src \<and> \<not> setitem_ok rt
          \<and> malloc_ok rt (Suc (length ''/* failed to set __APPLEPYE_CODE__ */'')) \<longrightarrow>
            applepye_execute rt (Some src) st =
              Some (Returned (Some ''/* failed to set __APPLEPYE_CODE__ */'') st))"
  using assms
  by (simp add: applepye_execute_def PyGILState_Ensure_def PyUnicode_FromString_def
        PyDict_SetItemString_def PyGILState_Release_def dup_str_def strlen_def)

text \<open>
  C8, witness: a source that is not UTF-8, and a runtime in which the binding fails.
\<close>

theorem construction_or_binding_failure_witness:
  "applepye_execute py_fragment (Some [CHR 0xFF]) ready =
     Some (Returned (Some ''/* failed to create Python code string */'') ready)
   \<and> applepye_execute (py_fragment\<lparr>setitem_ok := False\<rparr>) (Some ''x = 5'') ready =
     Some (Returned (Some ''/* failed to set __APPLEPYE_CODE__ */'') ready)"
  using construction_or_binding_failure [of ready py_fragment "[CHR 0xFF]"]
    construction_or_binding_failure [of ready "py_fragment\<lparr>setitem_ok := False\<rparr>" "''x = 5''"]
  by (simp add: fragment_defs ready_defs)






end
